theory Spec2Isabelle
  imports Main "HOL-Library.Sublist" "HOL-Library.AList"
begin

section \<open>Feature registry\<close>

text \<open>
  The interface \<open>FeatureConfig\<close> of the setup script. The optional fields \<open>hint\<close> and
  \<open>scripts\<close> are options.
\<close>

record FeatureConfig =
  label :: string
  hint :: "string option"
  files :: "string list"
  devDeps :: "string list"
  scripts :: "string list option"

text \<open>
  The constant \<open>FEATURES\<close>. A JavaScript object with string keys enumerates its keys
  in insertion order, so the registry is an association list in the order of the source.
\<close>

definition FEATURES :: "(string \<times> FeatureConfig) list" where
  "FEATURES =
    [(''gitHooks'',
        \<lparr>label = ''Git hooks (Husky + commitlint + lint-staged)'',
         hint = Some ''pre-commit testing, commit message linting'',
         files = [''.husky'', ''commitlint.config.js'', ''.lintstagedrc''],
         devDeps = [''@commitlint/cli'', ''@commitlint/config-conventional'', ''husky'', ''lint-staged''],
         scripts = Some [''prepare'']\<rparr>),
     (''githubTemplates'',
        \<lparr>label = ''GitHub issue & PR templates'',
         hint = Some ''bug report, feature request, PR template'',
         files = [''.github/ISSUE_TEMPLATE'', ''.github/PULL_REQUEST_TEMPLATE.md''],
         devDeps = [],
         scripts = None\<rparr>),
     (''githubCI'',
        \<lparr>label = ''GitHub Actions CI workflow'',
         hint = Some ''automated testing on push/PR'',
         files = [''.github/workflows''],
         devDeps = [],
         scripts = None\<rparr>),
     (''markdownlint'',
        \<lparr>label = ''Markdownlint'',
         hint = Some ''markdown file linting'',
         files = [''.markdownlint.json'', ''.markdownlintignore''],
         devDeps = [''markdownlint-cli''],
         scripts = None\<rparr>),
     (''codeOfConduct'',
        \<lparr>label = ''Code of Conduct'',
         hint = Some ''Contributor Covenant'',
         files = [''CODE_OF_CONDUCT.md''],
         devDeps = [],
         scripts = None\<rparr>),
     (''claudeCode'',
        \<lparr>label = ''Claude Code configuration'',
         hint = Some ''CLAUDE.md with Bun API guidelines'',
         files = [''CLAUDE.md''],
         devDeps = [],
         scripts = None\<rparr>)]"

text \<open>Errors a run can end with: every \<open>throw\<close> of the runtime is a value.\<close>

datatype error =
  TypeError
  | SyntaxError
  | ENOENT
  | EISDIR
  | ShellError

section \<open>Resolution of a selection\<close>

text \<open>
  \<open>Object.keys(FEATURES).filter((k) => !selectedFeatures.includes(k))\<close>: the selection
  is the array the multiselect prompt returned.
\<close>

definition deselected :: "string list \<Rightarrow> string list" where
  "deselected selectedFeatures = filter (\<lambda>k. k \<notin> set selectedFeatures) (map fst FEATURES)"

record Removals =
  depsToRemove :: "string list"
  filesToRemove :: "string list"
  scriptsToRemove :: "string list"

text \<open>
  The loop \<open>for (const key of deselected)\<close>. \<open>FEATURES[key]\<close> of a key the registry
  does not have is \<open>undefined\<close>, and reading \<open>.files\<close> of it throws a TypeError.
\<close>

fun collect :: "string list \<Rightarrow> Removals \<Rightarrow> error + Removals" where
  "collect [] r = Inr r"
| "collect (key # keys) r =
     (case map_of FEATURES key of
        None \<Rightarrow> Inl TypeError
      | Some feature \<Rightarrow>
          collect keys
            \<lparr>depsToRemove = depsToRemove r @ devDeps feature,
             filesToRemove = filesToRemove r @ files feature,
             scriptsToRemove =
               (case scripts feature of
                  None \<Rightarrow> scriptsToRemove r
                | Some ss \<Rightarrow> scriptsToRemove r @ ss)\<rparr>)"

definition resolve :: "string list \<Rightarrow> error + Removals" where
  "resolve selectedFeatures =
     collect (deselected selectedFeatures)
       \<lparr>depsToRemove = [], filesToRemove = [], scriptsToRemove = []\<rparr>"

text \<open>
  The last cross-feature rule: when both the templates and the CI workflow are
  deselected, \<open>.github\<close> is pushed onto \<open>filesToRemove\<close>.
\<close>

definition push_github :: "string list \<Rightarrow> string list \<Rightarrow> string list" where
  "push_github selectedFeatures fs =
     (if ''githubTemplates'' \<notin> set selectedFeatures \<and> ''githubCI'' \<notin> set selectedFeatures
      then fs @ [''.github''] else fs)"

section \<open>README text\<close>

definition newline :: char where
  "newline = CHR 0x0A"

text \<open>\<open>Array.prototype.join\<close>: the elements with the separator between them.\<close>

fun intercalate :: "'a list \<Rightarrow> 'a list list \<Rightarrow> 'a list" where
  "intercalate sep [] = []"
| "intercalate sep [x] = x"
| "intercalate sep (x # y # ys) = x @ sep @ intercalate sep (y # ys)"

text \<open>The lines that \<open>generateReadme\<close> pushes when \<open>gitHooks\<close> is among the features.\<close>

definition commit_convention_lines :: "string list" where
  "commit_convention_lines =
    ['''',
     ''## Commit Convention'',
     '''',
     ''This project uses [Conventional Commits](https://www.conventionalcommits.org/).'',
     '''',
     ''```text'',
     ''feat: add new feature'',
     ''fix: resolve bug'',
     ''docs: update documentation'',
     ''chore: maintenance tasks'',
     ''```'']"

text \<open>
  The array \<open>lines\<close> of \<open>generateReadme\<close>, in the order of its pushes.
  \<open>description || "..."\<close> takes the default for the empty string.
\<close>

definition readme_lines :: "string \<Rightarrow> string \<Rightarrow> string list \<Rightarrow> string list" where
  "readme_lines name description features =
    [''# '' @ name,
     '''',
     (if description = [] then ''A TypeScript project powered by Bun.'' else description),
     '''',
     ''## Stack'',
     '''',
     ''- **Runtime:** [Bun](https://bun.sh)'',
     ''- **Language:** TypeScript (strict mode)'',
     ''- **Linting/Formatting:** [Biome](https://biomejs.dev)'']
    @ (if ''gitHooks'' \<in> set features
       then [''- **Git Hooks:** Husky + lint-staged + commitlint''] else [])
    @ (if ''markdownlint'' \<in> set features
       then [''- **Markdown Linting:** markdownlint''] else [])
    @ ['''',
       ''## Getting Started'',
       '''',
       ''```bash'',
       ''bun install'',
       ''bun start'',
       ''```'',
       '''',
       ''## Scripts'',
       '''',
       ''| Command | Description |'',
       ''| --- | --- |'',
       ''| `bun start` | Run the project |'',
       ''| `bun test` | Run tests |'',
       ''| `bun run lint` | Check for lint/format issues |'',
       ''| `bun run format` | Fix lint/format issues |'']
    @ (if ''gitHooks'' \<in> set features then commit_convention_lines else [])
    @ ['''']"

text \<open>\<open>lines.join("\n")\<close>: the text that \<open>generateReadme\<close> writes.\<close>

definition readme_text :: "string \<Rightarrow> string \<Rightarrow> string list \<Rightarrow> string" where
  "readme_text name description features =
     intercalate [newline] (readme_lines name description features)"

section \<open>JSON documents\<close>

text \<open>
  A value that \<open>JSON.parse\<close> returns. An object is the list of its properties in the
  order the runtime enumerates them. A number carries the text that \<open>JSON.stringify\<close>
  prints for it (\<open>null\<close> for a number that is not finite), since the double itself has no
  counterpart here. Strings are byte strings in UTF-8.
\<close>

datatype json =
  JNull
  | JBool bool
  | JNum string
  | JStr string
  | JArr "json list"
  | JObj "(string \<times> json) list"

text \<open>\<open>ToBoolean\<close>, for the tests \<open>if (pkg.scripts)\<close> and \<open>if (devDeps)\<close>.\<close>

fun truthy :: "json \<Rightarrow> bool" where
  "truthy JNull = False"
| "truthy (JBool b) = b"
| "truthy (JNum s) = (s \<noteq> ''0'')"
| "truthy (JStr s) = (s \<noteq> [])"
| "truthy (JArr xs) = True"
| "truthy (JObj kvs) = True"

text \<open>
  \<open>obj[k]\<close> for the keys the script reads (none of them an array index or
  \<open>length\<close>); \<open>None\<close> is \<open>undefined\<close>.
\<close>

fun get_prop :: "string \<Rightarrow> json \<Rightarrow> json option" where
  "get_prop k (JObj kvs) = map_of kvs k"
| "get_prop k v = None"

text \<open>
  \<open>obj[k] = v\<close> in strict mode (the script is an ES module), for the keys the script
  writes, none of which is an integer index: an existing key keeps its place, a new key
  goes last. A property set on an array is not an element, and \<open>JSON.stringify\<close> does
  not print it, so the array stands for itself. On \<open>null\<close> and on a primitive the
  assignment throws.
\<close>

fun set_prop :: "string \<Rightarrow> json \<Rightarrow> json \<Rightarrow> error + json" where
  "set_prop k v (JObj kvs) = Inr (JObj (AList.update k v kvs))"
| "set_prop k v (JArr xs) = Inr (JArr xs)"
| "set_prop k v other = Inl TypeError"

text \<open>
  \<open>delete obj[k]\<close>, for the keys the script deletes: it throws on \<open>null\<close> only, and
  does nothing on an array or a primitive.
\<close>

fun delete_prop :: "string \<Rightarrow> json \<Rightarrow> error + json" where
  "delete_prop k (JObj kvs) = Inr (JObj (AList.delete k kvs))"
| "delete_prop k JNull = Inl TypeError"
| "delete_prop k other = Inr other"

text \<open>The loop \<open>for (const k of ks) delete obj[k]\<close> on a value that is truthy.\<close>

fun delete_keys :: "string list \<Rightarrow> json \<Rightarrow> json" where
  "delete_keys ks (JObj kvs) = JObj (fold AList.delete ks kvs)"
| "delete_keys ks other = other"

text \<open>
  The script changes \<open>pkg.devDependencies\<close> and \<open>pkg.scripts\<close> through a reference to
  the nested object: the property of \<open>pkg\<close> keeps its place and holds the changed value.
\<close>

fun modify_prop :: "string \<Rightarrow> (json \<Rightarrow> json) \<Rightarrow> json \<Rightarrow> json" where
  "modify_prop k f (JObj kvs) =
     (case map_of kvs k of
        None \<Rightarrow> JObj kvs
      | Some v \<Rightarrow> JObj (AList.update k (f v) kvs))"
| "modify_prop k f other = other"

subsection \<open>\<open>JSON.stringify\<close> with an indentation unit\<close>

definition hex_digit :: "nat \<Rightarrow> char" where
  "hex_digit n = (if n < 16 then ''0123456789abcdef'' ! n else CHR ''?'')"

text \<open>
  \<open>QuoteJSONString\<close>: the two-character escapes, \<open>\u00XX\<close> for the other control
  characters, every other byte as it is.
\<close>

definition quote_char :: "char \<Rightarrow> string" where
  "quote_char c =
     (if c = CHR 0x08 then [CHR 0x5C, CHR ''b'']
      else if c = CHR 0x09 then [CHR 0x5C, CHR ''t'']
      else if c = CHR 0x0A then [CHR 0x5C, CHR ''n'']
      else if c = CHR 0x0C then [CHR 0x5C, CHR ''f'']
      else if c = CHR 0x0D then [CHR 0x5C, CHR ''r'']
      else if c = CHR 0x22 then [CHR 0x5C, CHR 0x22]
      else if c = CHR 0x5C then [CHR 0x5C, CHR 0x5C]
      else if of_char c < (32 :: nat)
        then [CHR 0x5C, CHR ''u'', CHR ''0'', CHR ''0'',
              hex_digit (of_char c div 16), hex_digit (of_char c mod 16)]
      else [c])"

definition quote :: "string \<Rightarrow> string" where
  "quote s = [CHR 0x22] @ concat (map quote_char s) @ [CHR 0x22]"

text \<open>
  \<open>SerializeJSONProperty\<close> with its \<open>SerializeJSONArray\<close> and \<open>SerializeJSONObject\<close>,
  for the indentation unit \<open>gap\<close> and the current indentation \<open>ind\<close>. With the empty
  unit nothing is broken into lines and no space follows the colon.
\<close>

fun serialize :: "string \<Rightarrow> string \<Rightarrow> json \<Rightarrow> string" where
  "serialize gap ind JNull = ''null''"
| "serialize gap ind (JBool b) = (if b then ''true'' else ''false'')"
| "serialize gap ind (JNum s) = s"
| "serialize gap ind (JStr s) = quote s"
| "serialize gap ind (JArr xs) =
     (if xs = [] then ''[]''
      else if gap = [] then ''['' @ intercalate '','' (map (serialize gap ind) xs) @ '']''
      else ''['' @ [newline] @ (ind @ gap)
           @ intercalate ('','' @ [newline] @ (ind @ gap)) (map (serialize gap (ind @ gap)) xs)
           @ [newline] @ ind @ '']'')"
| "serialize gap ind (JObj kvs) =
     (if kvs = [] then ''{}''
      else if gap = []
        then ''{'' @ intercalate '','' (map (\<lambda>(k, v). quote k @ '':'' @ serialize gap ind v) kvs)
             @ ''}''
      else ''{'' @ [newline] @ (ind @ gap)
           @ intercalate ('','' @ [newline] @ (ind @ gap))
               (map (\<lambda>(k, v). quote k @ '': '' @ serialize gap (ind @ gap) v) kvs)
           @ [newline] @ ind @ ''}'')"

definition JSON_stringify :: "json \<Rightarrow> string \<Rightarrow> string" where
  "JSON_stringify v gap = serialize (take 10 gap) [] v"

definition tab :: string where
  "tab = [CHR 0x09]"

section \<open>Paths and the file system\<close>

text \<open>
  An absolute path is the list of its components below the root; the root is \<open>[]\<close>.
  \<open>PROJECT_DIR\<close> is \<open>process.cwd()\<close>, an absolute path without \<open>.\<close> and \<open>..\<close>.
\<close>

type_synonym path = "string list"

fun split_on :: "char \<Rightarrow> string \<Rightarrow> string list" where
  "split_on c [] = [[]]"
| "split_on c (x # xs) =
     (if x = c then [] # split_on c xs
      else (case split_on c xs of
              [] \<Rightarrow> [[x]]
            | y # ys \<Rightarrow> (x # y) # ys))"

text \<open>
  What \<open>path.join\<close> does to the segments after the directory: empty segments and
  \<open>.\<close> vanish, \<open>..\<close> drops the last component (and stays at the root).
\<close>

fun resolve_segments :: "path \<Rightarrow> string list \<Rightarrow> path" where
  "resolve_segments dir [] = dir"
| "resolve_segments dir (s # ss) =
     (if s = [] \<or> s = ''.'' then resolve_segments dir ss
      else if s = ''..'' then resolve_segments (butlast dir) ss
      else resolve_segments (dir @ [s]) ss)"

definition join :: "path \<Rightarrow> string \<Rightarrow> path" where
  "join dir p = resolve_segments dir (split_on CHR ''/'' p)"

definition basename :: "path \<Rightarrow> string" where
  "basename p = (if p = [] then [] else last p)"

datatype node = Dir | File string

text \<open>The calls of the script to the prompt library, in the order they are made.\<close>

datatype prompt =
  Prompt_description
  | Prompt_version
  | Prompt_author
  | Prompt_license
  | Prompt_private
  | Prompt_entrypoint
  | Prompt_features

text \<open>
  What a run does to the outside, in order: the calls to the prompt library, and the
  reads, writes, removals and the reinstallation of the dependencies.
\<close>

datatype event =
  Intro string
  | Asked prompt
  | CancelMessage string
  | SpinnerStart string
  | SpinnerMessage string
  | SpinnerStop string
  | LogInfo string
  | Note string string
  | Outro string
  | ConsoleError error
  | ReadText path
  | WriteText path string
  | RmRf path
  | BunInstall

record world =
  cwd :: path
  disk :: "path \<Rightarrow> node option"
  trace :: "event list"

text \<open>
  How a run stops before its end: a value thrown, or \<open>process.exit\<close>. A step takes the
  world and returns the world it leaves, with its value or the reason it stopped.
\<close>

datatype stop = Threw error | Exited nat

type_synonym 'a io = "world \<Rightarrow> (stop + 'a) \<times> world"

definition io_return :: "'a \<Rightarrow> 'a io" where
  "io_return x = (\<lambda>w. (Inr x, w))"

definition io_bind :: "'a io \<Rightarrow> ('a \<Rightarrow> 'b io) \<Rightarrow> 'b io" where
  "io_bind m f = (\<lambda>w. case m w of (Inl s, w') \<Rightarrow> (Inl s, w') | (Inr x, w') \<Rightarrow> f x w')"

definition io_throw :: "error \<Rightarrow> 'a io" where
  "io_throw e = (\<lambda>w. (Inl (Threw e), w))"

definition io_exit :: "nat \<Rightarrow> 'a io" where
  "io_exit n = (\<lambda>w. (Inl (Exited n), w))"

definition io_lift :: "error + 'a \<Rightarrow> 'a io" where
  "io_lift r = (case r of Inl e \<Rightarrow> io_throw e | Inr x \<Rightarrow> io_return x)"

definition emit :: "event \<Rightarrow> unit io" where
  "emit e = (\<lambda>w. (Inr (), w\<lparr>trace := trace w @ [e]\<rparr>))"

text \<open>The root is a directory that is always there.\<close>

definition lookup_node :: "world \<Rightarrow> path \<Rightarrow> node option" where
  "lookup_node w p = (if p = [] then Some Dir else disk w p)"

definition existsSync :: "path \<Rightarrow> bool io" where
  "existsSync p = (\<lambda>w. (Inr (lookup_node w p \<noteq> None), w))"

text \<open>\<open>Bun.file(p).text()\<close>: the text of a file; a directory or a missing path throws.\<close>

definition read_text :: "path \<Rightarrow> string io" where
  "read_text p =
     io_bind (emit (ReadText p)) (\<lambda>_ w.
       case lookup_node w p of
         None \<Rightarrow> io_throw ENOENT w
       | Some Dir \<Rightarrow> io_throw EISDIR w
       | Some (File s) \<Rightarrow> io_return s w)"

text \<open>\<open>Bun.write(p, s)\<close>: the file holds \<open>s\<close> afterwards; writing onto a directory throws.\<close>

definition write_text :: "path \<Rightarrow> string \<Rightarrow> unit io" where
  "write_text p s =
     io_bind (emit (WriteText p s)) (\<lambda>_ w.
       case lookup_node w p of
         Some Dir \<Rightarrow> io_throw EISDIR w
       | _ \<Rightarrow> io_return () (w\<lparr>disk := (disk w)(p \<mapsto> File s)\<rparr>))"

text \<open>
  The shell command \<open>rm -rf p\<close>: the path and everything below it are gone. The shell
  refuses to remove the root, and its failure is thrown. Permissions are not modelled.
\<close>

definition rm_rf :: "path \<Rightarrow> unit io" where
  "rm_rf p =
     io_bind (emit (RmRf p)) (\<lambda>_ w.
       if p = [] then io_throw ShellError w
       else io_return () (w\<lparr>disk := (\<lambda>q. if prefix p q then None else disk w q)\<rparr>))"

text \<open>
  What the script takes from outside and this theory leaves open: \<open>JSON.parse\<close>
  (\<open>None\<close> when it throws a SyntaxError) and the subprocess \<open>bun install\<close>, run in the
  project directory (\<open>None\<close> when it exits with an error).
\<close>

record env =
  JSON_parse :: "string \<Rightarrow> json option"
  bun_install :: "path \<Rightarrow> (path \<Rightarrow> node option) \<Rightarrow> (path \<Rightarrow> node option) option"

section \<open>The helpers of the script\<close>

text \<open>\<open>process.cwd()\<close>, which the script never changes.\<close>

definition PROJECT_DIR :: "path io" where
  "PROJECT_DIR = (\<lambda>w. (Inr (cwd w), w))"

definition PKG_PATH :: "path io" where
  "PKG_PATH = io_bind PROJECT_DIR (\<lambda>dir. io_return (join dir ''package.json''))"

text \<open>
  What a prompt returns: the answer, or the cancel symbol, which \<open>isCancel\<close> recognises.
\<close>

datatype 'a reply = Cancel | Answer 'a

definition assertNotCancelled :: "'a reply \<Rightarrow> 'a io" where
  "assertNotCancelled v =
     (case v of
        Cancel \<Rightarrow>
          io_bind (emit (CancelMessage ''Setup cancelled. Re-run with: bun setup/setup.ts''))
            (\<lambda>_. io_exit 0)
      | Answer x \<Rightarrow> io_return x)"

definition readPkg :: "env \<Rightarrow> json io" where
  "readPkg env =
     io_bind PKG_PATH (\<lambda>p.
     io_bind (read_text p) (\<lambda>txt.
       case JSON_parse env txt of
         None \<Rightarrow> io_throw SyntaxError
       | Some pkg \<Rightarrow> io_return pkg))"

definition writePkg :: "json \<Rightarrow> unit io" where
  "writePkg pkg =
     io_bind PKG_PATH (\<lambda>p. write_text p (JSON_stringify pkg tab @ [newline]))"

fun removeFiles :: "string list \<Rightarrow> unit io" where
  "removeFiles [] = io_return ()"
| "removeFiles (p # paths) =
     io_bind PROJECT_DIR (\<lambda>dir.
     io_bind (existsSync (join dir p)) (\<lambda>there.
     io_bind (if there then rm_rf (join dir p) else io_return ()) (\<lambda>_.
     removeFiles paths)))"

definition generateReadme :: "string \<Rightarrow> string \<Rightarrow> string list \<Rightarrow> unit io" where
  "generateReadme name description features =
     io_bind PROJECT_DIR (\<lambda>dir.
     write_text (join dir ''README.md'') (readme_text name description features))"

text \<open>\<open>$`bun install`.quiet()\<close>: the shell throws when the subprocess fails.\<close>

definition reinstall :: "env \<Rightarrow> unit io" where
  "reinstall env =
     io_bind (emit BunInstall) (\<lambda>_ w.
       case bun_install env (cwd w) (disk w) of
         None \<Rightarrow> io_throw ShellError w
       | Some d \<Rightarrow> io_return () (w\<lparr>disk := d\<rparr>))"

section \<open>The prompt sequence\<close>

record Answers =
  description :: string
  version :: string
  author :: string
  license :: string
  isPrivate :: bool
  entrypoint :: string
  selectedFeatures :: "string list"

text \<open>
  What the prompt library returns at each of the seven prompts, defaults and validation
  applied: the user of a run. A reply after a cancelled prompt is never looked at.
\<close>

record Replies =
  reply_description :: "string reply"
  reply_version :: "string reply"
  reply_author :: "string reply"
  reply_license :: "string reply"
  reply_private :: "bool reply"
  reply_entrypoint :: "string reply"
  reply_features :: "string list reply"

text \<open>One prompt: the call to the library, then \<open>assertNotCancelled\<close> on what it returned.\<close>

definition ask :: "prompt \<Rightarrow> 'a reply \<Rightarrow> 'a io" where
  "ask p v = io_bind (emit (Asked p)) (\<lambda>_. assertNotCancelled v)"

definition prompt_sequence :: "Replies \<Rightarrow> Answers io" where
  "prompt_sequence r =
     io_bind (ask Prompt_description (reply_description r)) (\<lambda>a1.
     io_bind (ask Prompt_version (reply_version r)) (\<lambda>a2.
     io_bind (ask Prompt_author (reply_author r)) (\<lambda>a3.
     io_bind (ask Prompt_license (reply_license r)) (\<lambda>a4.
     io_bind (ask Prompt_private (reply_private r)) (\<lambda>a5.
     io_bind (ask Prompt_entrypoint (reply_entrypoint r)) (\<lambda>a6.
     io_bind (ask Prompt_features (reply_features r)) (\<lambda>a7.
     io_return
       \<lparr>description = a1, version = a2, author = a3, license = a4, isPrivate = a5,
        entrypoint = a6, selectedFeatures = a7\<rparr>)))))))"

section \<open>The edits of the manifest\<close>

definition and_then :: "error + 'a \<Rightarrow> ('a \<Rightarrow> error + 'b) \<Rightarrow> error + 'b" where
  "and_then r f = (case r of Inl e \<Rightarrow> Inl e | Inr x \<Rightarrow> f x)"

text \<open>The seven assignments under \<open>Update metadata\<close>.\<close>

definition update_metadata :: "Answers \<Rightarrow> json \<Rightarrow> error + json" where
  "update_metadata a pkg =
     and_then (set_prop ''description'' (JStr (description a)) pkg) (\<lambda>pkg.
     and_then (set_prop ''version'' (JStr (version a)) pkg) (\<lambda>pkg.
     and_then (set_prop ''author'' (JStr (author a)) pkg) (\<lambda>pkg.
     and_then (set_prop ''license'' (JStr (license a)) pkg) (\<lambda>pkg.
     and_then (set_prop ''private'' (JBool (isPrivate a)) pkg) (\<lambda>pkg.
     and_then (set_prop ''main'' (JStr (entrypoint a)) pkg) (\<lambda>pkg.
     set_prop ''keywords'' (JArr []) pkg))))))"

definition truthy_prop :: "string \<Rightarrow> json \<Rightarrow> bool" where
  "truthy_prop k pkg = (case get_prop k pkg of None \<Rightarrow> False | Some v \<Rightarrow> truthy v)"

text \<open>
  \<open>if (entrypoint !== "src/index.ts" && pkg.scripts) pkg.scripts.start = ...\<close>: the
  assignment throws when \<open>pkg.scripts\<close> is a truthy primitive.
\<close>

definition update_start_script :: "Answers \<Rightarrow> json \<Rightarrow> error + json" where
  "update_start_script a pkg =
     (if entrypoint a \<noteq> ''src/index.ts'' \<and> truthy_prop ''scripts'' pkg
      then (case get_prop ''scripts'' pkg of
              None \<Rightarrow> Inr pkg
            | Some sc \<Rightarrow>
                and_then (set_prop ''start'' (JStr (''bun '' @ entrypoint a)) sc)
                  (\<lambda>sc'. set_prop ''scripts'' sc' pkg))
      else Inr pkg)"

definition remove_devDependencies :: "string list \<Rightarrow> json \<Rightarrow> json" where
  "remove_devDependencies deps pkg =
     (if deps \<noteq> [] \<and> truthy_prop ''devDependencies'' pkg
      then modify_prop ''devDependencies'' (delete_keys deps) pkg
      else pkg)"

definition remove_scripts :: "string list \<Rightarrow> json \<Rightarrow> json" where
  "remove_scripts ss pkg =
     (if ss \<noteq> [] \<and> truthy_prop ''scripts'' pkg
      then modify_prop ''scripts'' (delete_keys ss) pkg
      else pkg)"

text \<open>\<open>if (devDeps) delete devDeps["@clack/prompts"]\<close>.\<close>

definition remove_clack :: "json \<Rightarrow> json" where
  "remove_clack pkg =
     (if truthy_prop ''devDependencies'' pkg
      then modify_prop ''devDependencies'' (delete_keys [''@clack/prompts'']) pkg
      else pkg)"

section \<open>The cross-feature cleanup\<close>

text \<open>
  The three rules on JSON files are the same code with another path and key: if the file
  is there, parse it, delete the key, write it back with tabs and a final newline.
\<close>

definition delete_key_in_file :: "env \<Rightarrow> string \<Rightarrow> string \<Rightarrow> unit io" where
  "delete_key_in_file env file key =
     io_bind PROJECT_DIR (\<lambda>dir.
     io_bind (existsSync (join dir file)) (\<lambda>there.
       if there
       then io_bind (read_text (join dir file)) (\<lambda>txt.
              case JSON_parse env txt of
                None \<Rightarrow> io_throw SyntaxError
              | Some doc \<Rightarrow>
                  io_bind (io_lift (delete_prop key doc)) (\<lambda>doc'.
                  write_text (join dir file) (JSON_stringify doc' tab @ [newline])))
       else io_return ()))"

definition clean_lintstaged :: "env \<Rightarrow> string list \<Rightarrow> unit io" where
  "clean_lintstaged env selected =
     (if ''markdownlint'' \<notin> set selected \<and> ''gitHooks'' \<in> set selected
      then delete_key_in_file env ''.lintstagedrc'' ''*.md''
      else io_return ())"

definition clean_vscode_markdown :: "env \<Rightarrow> string list \<Rightarrow> unit io" where
  "clean_vscode_markdown env selected =
     (if ''markdownlint'' \<notin> set selected
      then delete_key_in_file env ''.vscode/settings.json'' ''[markdown]''
      else io_return ())"

definition clean_vscode_ci :: "env \<Rightarrow> string list \<Rightarrow> unit io" where
  "clean_vscode_ci env selected =
     (if ''githubCI'' \<notin> set selected
      then delete_key_in_file env ''.vscode/settings.json'' ''[github-actions-workflow]''
      else io_return ())"

text \<open>
  The two replacements on \<open>ci.yml\<close> have the shape \<open>/\n\s*HEAD.*?TAIL/s\<close> with literal
  \<open>HEAD\<close> and \<open>TAIL\<close>, and replace the first match by a newline. \<open>HEAD\<close> starts with a
  character that is not white space, so \<open>\s*\<close> takes the whole run of white space;
  \<open>.*?\<close> ends at the first \<open>TAIL\<close>. White space is the ASCII white space.
\<close>

definition is_space :: "char \<Rightarrow> bool" where
  "is_space c = (c \<in> {CHR '' '', CHR 0x09, CHR 0x0A, CHR 0x0B, CHR 0x0C, CHR 0x0D})"

fun after_first :: "string \<Rightarrow> string \<Rightarrow> string option" where
  "after_first t [] = (if t = [] then Some [] else None)"
| "after_first t (x # xs) =
     (if prefix t (x # xs) then Some (drop (length t) (x # xs)) else after_first t xs)"

definition match_here :: "string \<Rightarrow> string \<Rightarrow> string \<Rightarrow> string option" where
  "match_here hd_lit tl_lit s =
     (case s of
        [] \<Rightarrow> None
      | c # cs \<Rightarrow>
          if c = newline \<and> prefix hd_lit (dropWhile is_space cs)
          then after_first tl_lit (drop (length hd_lit) (dropWhile is_space cs))
          else None)"

fun replace_first :: "string \<Rightarrow> string \<Rightarrow> string \<Rightarrow> string" where
  "replace_first hd_lit tl_lit [] = []"
| "replace_first hd_lit tl_lit (c # cs) =
     (case match_here hd_lit tl_lit (c # cs) of
        Some rest \<Rightarrow> newline # rest
      | None \<Rightarrow> c # replace_first hd_lit tl_lit cs)"

definition strip_commitlint_steps :: "string \<Rightarrow> string" where
  "strip_commitlint_steps ci =
     replace_first ''- name: Validate PR commits'' (''--verbose'' @ [newline])
       (replace_first ''- name: Validate current commit''
          (''run: bunx commitlint --last --verbose'' @ [newline]) ci)"

definition clean_ci :: "string list \<Rightarrow> unit io" where
  "clean_ci selected =
     (if ''gitHooks'' \<notin> set selected \<and> ''githubCI'' \<in> set selected
      then io_bind PROJECT_DIR (\<lambda>dir.
           io_bind (existsSync (join dir ''.github/workflows/ci.yml'')) (\<lambda>there.
             if there
             then io_bind (read_text (join dir ''.github/workflows/ci.yml'')) (\<lambda>ci.
                  write_text (join dir ''.github/workflows/ci.yml'') (strip_commitlint_steps ci))
             else io_return ()))
      else io_return ())"

definition cross_feature_cleanup :: "env \<Rightarrow> string list \<Rightarrow> unit io" where
  "cross_feature_cleanup env selected =
     io_bind (clean_lintstaged env selected) (\<lambda>_.
     io_bind (clean_vscode_markdown env selected) (\<lambda>_.
     io_bind (clean_ci selected) (\<lambda>_.
     clean_vscode_ci env selected)))"

section \<open>The run\<close>

definition handle_license :: "string \<Rightarrow> unit io" where
  "handle_license l =
     (if l \<noteq> ''Apache-2.0''
      then (if l = ''UNLICENSED'' then removeFiles [''LICENSE'']
            else emit (LogInfo (''License set to '' @ l
                   @ ''. Remember to replace the LICENSE file contents.'')))
      else io_return ())"

text \<open>\<open>keys.map((k) => prefix + FEATURES[k].label)\<close>: a key outside the registry throws.\<close>

fun feature_labels :: "string \<Rightarrow> string list \<Rightarrow> error + string list" where
  "feature_labels pre [] = Inr []"
| "feature_labels pre (k # ks) =
     (case map_of FEATURES k of
        None \<Rightarrow> Inl TypeError
      | Some f \<Rightarrow> and_then (feature_labels pre ks) (\<lambda>ls. Inr ((pre @ label f) # ls)))"

definition summary :: "string list \<Rightarrow> unit io" where
  "summary selected =
     io_bind (io_lift (feature_labels ''  + '' selected)) (\<lambda>kept.
     io_bind (io_lift (feature_labels ''  - '' (deselected selected))) (\<lambda>removed.
     io_bind (emit (Note (intercalate [newline] (kept @ removed)) ''Features'')) (\<lambda>_.
     emit (Outro ''Done! Run `bun start` to begin.''))))"

text \<open>
  The body of \<open>main\<close> from \<open>Apply changes\<close> on, in the order of the source, in three
  parts. First the manifest is read and edited in memory, and the selection resolved.
\<close>

definition edit_manifest :: "env \<Rightarrow> Answers \<Rightarrow> (json \<times> Removals) io" where
  "edit_manifest env a =
     io_bind (emit (SpinnerStart ''Configuring project...'')) (\<lambda>_.
     io_bind (readPkg env) (\<lambda>pkg.
     io_bind (io_lift (update_metadata a pkg)) (\<lambda>pkg.
     io_bind (io_lift (update_start_script a pkg)) (\<lambda>pkg.
     io_bind (io_lift (resolve (selectedFeatures a))) (\<lambda>r.
     io_return
       (remove_scripts (scriptsToRemove r) (remove_devDependencies (depsToRemove r) pkg),
        r))))))"

text \<open>
  After the cross-feature cleanup: the files of the deselected features are removed, the
  manifest is written, the setup directory removed and the dependencies reinstalled.
\<close>

definition remove_and_write :: "env \<Rightarrow> Answers \<Rightarrow> json \<Rightarrow> Removals \<Rightarrow> unit io" where
  "remove_and_write env a pkg r =
     io_bind (removeFiles (push_github (selectedFeatures a) (filesToRemove r))) (\<lambda>_.
     io_bind (io_lift (delete_prop ''bun-create'' (remove_clack pkg))) (\<lambda>pkg.
     io_bind (writePkg pkg) (\<lambda>_.
     io_bind (removeFiles [''setup'']) (\<lambda>_.
     if depsToRemove r \<noteq> []
     then io_bind (emit (SpinnerMessage ''Cleaning up dependencies...'')) (\<lambda>_. reinstall env)
     else io_return ()))))"

text \<open>Last the README, the license file and the summary.\<close>

definition finish :: "string \<Rightarrow> Answers \<Rightarrow> unit io" where
  "finish projectName a =
     io_bind (emit (SpinnerMessage ''Generating README...'')) (\<lambda>_.
     io_bind (generateReadme projectName (description a) (selectedFeatures a)) (\<lambda>_.
     io_bind (emit (SpinnerStop ''Project configured!'')) (\<lambda>_.
     io_bind (handle_license (license a)) (\<lambda>_.
     summary (selectedFeatures a)))))"

definition apply_changes :: "env \<Rightarrow> string \<Rightarrow> Answers \<Rightarrow> unit io" where
  "apply_changes env projectName a =
     io_bind (edit_manifest env a) (\<lambda>(pkg, r).
     io_bind (cross_feature_cleanup env (selectedFeatures a)) (\<lambda>_.
     io_bind (remove_and_write env a pkg r) (\<lambda>_.
     finish projectName a)))"

definition main :: "env \<Rightarrow> Replies \<Rightarrow> unit io" where
  "main env r =
     io_bind PROJECT_DIR (\<lambda>dir.
     io_bind (emit (Intro (''Setting up '' @ basename dir))) (\<lambda>_.
     io_bind (prompt_sequence r) (\<lambda>a.
     apply_changes env (basename dir) a)))"

text \<open>
  The last statement of the script, \<open>main().catch(...)\<close>: the exit code of the process and
  the world it leaves.
\<close>

definition script :: "env \<Rightarrow> Replies \<Rightarrow> world \<Rightarrow> nat \<times> world" where
  "script env r w =
     (case main env r w of
        (Inr _, w') \<Rightarrow> (0, w')
      | (Inl (Exited n), w') \<Rightarrow> (n, w')
      | (Inl (Threw e), w') \<Rightarrow> (1, w'\<lparr>trace := trace w' @ [ConsoleError e]\<rparr>))"

section \<open>Notions for stating the properties\<close>

text \<open>
  The first prompt the user cancels, and the prompts the script has made when it gets
  that far.
\<close>

definition first_cancel :: "Replies \<Rightarrow> prompt option" where
  "first_cancel r =
     (if reply_description r = Cancel then Some Prompt_description
      else if reply_version r = Cancel then Some Prompt_version
      else if reply_author r = Cancel then Some Prompt_author
      else if reply_license r = Cancel then Some Prompt_license
      else if reply_private r = Cancel then Some Prompt_private
      else if reply_entrypoint r = Cancel then Some Prompt_entrypoint
      else if reply_features r = Cancel then Some Prompt_features
      else None)"

definition all_prompts :: "prompt list" where
  "all_prompts =
     [Prompt_description, Prompt_version, Prompt_author, Prompt_license, Prompt_private,
      Prompt_entrypoint, Prompt_features]"

definition prompts_through :: "prompt \<Rightarrow> prompt list" where
  "prompts_through p = takeWhile (\<lambda>q. q \<noteq> p) all_prompts @ [p]"

definition cancel_message :: event where
  "cancel_message = CancelMessage ''Setup cancelled. Re-run with: bun setup/setup.ts''"

text \<open>The events that are prompts, and those that touch the file system.\<close>

fun is_prompt_event :: "event \<Rightarrow> bool" where
  "is_prompt_event (Asked p) = True"
| "is_prompt_event e = False"

fun is_file_event :: "event \<Rightarrow> bool" where
  "is_file_event (ReadText p) = True"
| "is_file_event (WriteText p s) = True"
| "is_file_event (RmRf p) = True"
| "is_file_event BunInstall = True"
| "is_file_event e = False"

text \<open>The events that read or write the one file \<open>p\<close>.\<close>

fun edits :: "path \<Rightarrow> event \<Rightarrow> bool" where
  "edits p (ReadText q) = (q = p)"
| "edits p (WriteText q s) = (q = p)"
| "edits p e = False"

text \<open>
  The trace is a complete log of what happens to the files: \<open>replay\<close> is the effect of
  one event on them. A step \<open>runs\<close> within \<open>P\<close> when, started in the directory \<open>c\<close>, it
  stays there, appends only events that satisfy \<open>P\<close>, and leaves the files that replaying
  those events gives.
\<close>

fun replay :: "env \<Rightarrow> path \<Rightarrow> event \<Rightarrow> (path \<Rightarrow> node option) \<Rightarrow> (path \<Rightarrow> node option)" where
  "replay env c (WriteText p s) d = (if p = [] \<or> d p = Some Dir then d else d(p \<mapsto> File s))"
| "replay env c (RmRf p) d = (if p = [] then d else (\<lambda>q. if prefix p q then None else d q))"
| "replay env c BunInstall d = (case bun_install env c d of None \<Rightarrow> d | Some d' \<Rightarrow> d')"
| "replay env c e d = d"

definition runs :: "env \<Rightarrow> path \<Rightarrow> (event \<Rightarrow> bool) \<Rightarrow> 'a io \<Rightarrow> bool" where
  "runs env c P m =
     (\<forall>w. cwd w = c \<longrightarrow>
        cwd (snd (m w)) = c \<and>
        (\<exists>es. trace (snd (m w)) = trace w @ es \<and> list_all P es \<and>
              disk (snd (m w)) = fold (replay env c) es (disk w)))"

text \<open>The events that the cross-feature cleanup can cause under a selection.\<close>

definition cleanup_event :: "path \<Rightarrow> string list \<Rightarrow> event \<Rightarrow> bool" where
  "cleanup_event c S e =
     ((''markdownlint'' \<notin> set S \<and> ''gitHooks'' \<in> set S \<and> edits (join c ''.lintstagedrc'') e)
      \<or> (''markdownlint'' \<notin> set S \<and> edits (join c ''.vscode/settings.json'') e)
      \<or> (''gitHooks'' \<notin> set S \<and> ''githubCI'' \<in> set S
          \<and> edits (join c ''.github/workflows/ci.yml'') e)
      \<or> (''githubCI'' \<notin> set S \<and> edits (join c ''.vscode/settings.json'') e))"



text \<open>A project to run the script on: a manifest, a lint-staged file, the setup directory.\<close>

definition example_manifest :: json where
  "example_manifest =
     JObj [(''name'', JStr ''ts-template''),
           (''version'', JStr ''0.0.0''),
           (''scripts'', JObj [(''start'', JStr ''bun src/index.ts''), (''prepare'', JStr ''husky'')]),
           (''devDependencies'',
              JObj [(''@clack/prompts'', JStr ''^0.9.0''), (''husky'', JStr ''^9.0.0''),
                    (''markdownlint-cli'', JStr ''^0.43.0'')]),
           (''bun-create'', JObj [])]"

definition example_lintstaged :: json where
  "example_lintstaged =
     JObj [(''*.ts'', JStr ''biome check''), (''*.md'', JStr ''markdownlint'')]"

definition example_env :: env where
  "example_env =
     \<lparr>JSON_parse = map_of [(''MANIFEST'', example_manifest), (''LINTSTAGED'', example_lintstaged)],
      bun_install = (\<lambda>dir d. Some d)\<rparr>"

definition example_world :: world where
  "example_world =
     \<lparr>cwd = [''home'', ''proj''],
      disk = map_of
        [([''home'', ''proj'', ''package.json''], File ''MANIFEST''),
         ([''home'', ''proj'', ''.lintstagedrc''], File ''LINTSTAGED''),
         ([''home'', ''proj'', ''.markdownlint.json''], File ''{}''),
         ([''home'', ''proj'', ''setup''], Dir),
         ([''home'', ''proj'', ''setup'', ''setup.ts''], File ''main()'')],
      trace = []\<rparr>"

definition example_replies :: Replies where
  "example_replies =
     \<lparr>reply_description = Answer ''A demo'',
      reply_version = Answer ''0.1.0'',
      reply_author = Answer ''Ada'',
      reply_license = Answer ''MIT'',
      reply_private = Answer True,
      reply_entrypoint = Answer ''src/index.ts'',
      reply_features = Answer [''gitHooks'', ''githubCI'']\<rparr>"









definition example_selection :: "string list" where
  "example_selection = [''gitHooks'', ''githubCI'']"

definition example_removals :: Removals where
  "example_removals =
     \<lparr>depsToRemove = [''markdownlint-cli''],
      filesToRemove = [''.github/ISSUE_TEMPLATE'', ''.github/PULL_REQUEST_TEMPLATE.md'',
                       ''.markdownlint.json'', ''.markdownlintignore'', ''CODE_OF_CONDUCT.md'',
                       ''CLAUDE.md''],
      scriptsToRemove = []\<rparr>"

section \<open>Properties of the resolution\<close>

lemma distinct_feature_keys: "distinct (map fst FEATURES)"
  by (simp add: FEATURES_def)

lemma distinct_feature_files: "distinct (concat (map (\<lambda>(k, f). files f) FEATURES))"
  by (simp add: FEATURES_def)


lemma collect_entries:
  "set es \<subseteq> set FEATURES \<Longrightarrow>
   \<exists>r'. collect (map fst es) r = Inr r' \<and>
     filesToRemove r' = filesToRemove r @ concat (map (\<lambda>(k, f). files f) es) \<and>
     depsToRemove r' = depsToRemove r @ concat (map (\<lambda>(k, f). devDeps f) es)"
proof (induction es arbitrary: r)
  case Nil
  then show ?case by simp
next
  case (Cons e es)
  obtain k f where e: "e = (k, f)" by (cases e)
  with Cons.prems have "(k, f) \<in> set FEATURES" by simp
  then have f: "map_of FEATURES k = Some f"
    using distinct_feature_keys by simp
  from Cons.prems have sub: "set es \<subseteq> set FEATURES" by simp
  show ?case
    using Cons.IH [OF sub, of "\<lparr>depsToRemove = depsToRemove r @ devDeps f,
             filesToRemove = filesToRemove r @ files f,
             scriptsToRemove =
               (case scripts f of
                  None \<Rightarrow> scriptsToRemove r
                | Some ss \<Rightarrow> scriptsToRemove r @ ss)\<rparr>"] f e
    by auto
qed

lemma deselected_entries:
  "deselected S = map fst (filter (\<lambda>(k, f). k \<notin> set S) FEATURES)"
  by (simp add: deselected_def filter_map comp_def case_prod_unfold)

lemma resolve_lists:
  "\<exists>r. resolve S = Inr r \<and>
     filesToRemove r = concat (map (\<lambda>(k, f). files f) (filter (\<lambda>(k, f). k \<notin> set S) FEATURES)) \<and>
     depsToRemove r = concat (map (\<lambda>(k, f). devDeps f) (filter (\<lambda>(k, f). k \<notin> set S) FEATURES))"
  using collect_entries [of "filter (\<lambda>(k, f). k \<notin> set S) FEATURES"
      "\<lparr>depsToRemove = [], filesToRemove = [], scriptsToRemove = []\<rparr>"]
  by (simp add: resolve_def deselected_entries)

lemma distinct_concat_filter_disjoint:
  "distinct (concat (map g xs)) \<Longrightarrow>
   set (concat (map g (filter P xs))) \<inter> set (concat (map g (filter (\<lambda>x. \<not> P x) xs))) = {}"
  by (induction xs) auto

lemma github_in_no_feature: "''.github'' \<notin> set (concat (map (\<lambda>(k, f). files f) FEATURES))"
  by (simp add: FEATURES_def)

text \<open>
  Claim C1. For every selection, the resolution succeeds and the list handed to
  \<open>removeFiles\<close> is the concatenation, in registry order and with duplicates kept, of
  the file lists of the features that are not selected, followed by \<open>.github\<close> when the
  last cross-feature rule fires; no path of a selected feature's file list is in it.
\<close>

theorem filesToRemove_exact:
  "\<exists>r. resolve S = Inr r \<and>
     push_github S (filesToRemove r) =
       concat (map (\<lambda>(k, f). files f) (filter (\<lambda>(k, f). k \<notin> set S) FEATURES))
       @ (if ''githubTemplates'' \<notin> set S \<and> ''githubCI'' \<notin> set S then [''.github''] else []) \<and>
     set (push_github S (filesToRemove r))
       \<inter> set (concat (map (\<lambda>(k, f). files f) (filter (\<lambda>(k, f). k \<in> set S) FEATURES))) = {}"
proof -
  obtain r where r: "resolve S = Inr r"
    and fs: "filesToRemove r = concat (map (\<lambda>(k, f). files f) (filter (\<lambda>(k, f). k \<notin> set S) FEATURES))"
    using resolve_lists [of S] by blast
  have d: "set (concat (map (\<lambda>(k, f). files f) (filter (\<lambda>(k, f). k \<notin> set S) FEATURES)))
       \<inter> set (concat (map (\<lambda>(k, f). files f) (filter (\<lambda>(k, f). k \<in> set S) FEATURES))) = {}"
    using distinct_concat_filter_disjoint [OF distinct_feature_files, of "\<lambda>(k, f). k \<notin> set S"]
    by (simp add: case_prod_unfold)
  have g: "''.github'' \<notin> set (concat (map (\<lambda>(k, f). files f) (filter (\<lambda>(k, f). k \<in> set S) FEATURES)))"
    using github_in_no_feature by auto
  show ?thesis
    using r fs d g by (auto simp: push_github_def)
qed

text \<open>
  Claim C5. \<open>.github\<close> is in the list handed to \<open>removeFiles\<close> exactly when neither the
  templates nor the CI workflow are selected; it comes from the rule, not from the loop
  over the deselected features, and no feature's file list names it.
\<close>

theorem github_dir_rule:
  "\<exists>r. resolve S = Inr r \<and>
     (''.github'' \<in> set (push_github S (filesToRemove r)))
       = (''githubTemplates'' \<notin> set S \<and> ''githubCI'' \<notin> set S) \<and>
     ''.github'' \<notin> set (filesToRemove r) \<and>
     ''.github'' \<notin> set (concat (map (\<lambda>(k, f). files f) FEATURES))"
proof -
  obtain r where r: "resolve S = Inr r"
    and fs: "filesToRemove r = concat (map (\<lambda>(k, f). files f) (filter (\<lambda>(k, f). k \<notin> set S) FEATURES))"
    using resolve_lists [of S] by blast
  have g: "''.github'' \<notin> set (filesToRemove r)"
    using github_in_no_feature unfolding fs by auto
  show ?thesis
    using r g github_in_no_feature by (auto simp: push_github_def)
qed

section \<open>Steps and their effects\<close>

lemma runsI:
  "(\<And>w. cwd w = c \<Longrightarrow> cwd (snd (m w)) = c \<and>
        (\<exists>es. trace (snd (m w)) = trace w @ es \<and> list_all P es \<and>
              disk (snd (m w)) = fold (replay env c) es (disk w))) \<Longrightarrow> runs env c P m"
  by (simp add: runs_def)

lemma runsD:
  "runs env c P m \<Longrightarrow> cwd w = c \<Longrightarrow> m w = (r, w') \<Longrightarrow>
   cwd w' = c \<and> (\<exists>es. trace w' = trace w @ es \<and> list_all P es \<and>
                    disk w' = fold (replay env c) es (disk w))"
  by (auto simp: runs_def)

lemma runs_mono: "runs env c P m \<Longrightarrow> (\<And>e. P e \<Longrightarrow> Q e) \<Longrightarrow> runs env c Q m"
  unfolding runs_def by (metis (mono_tags, lifting) list.pred_mono_strong)

lemma runs_return: "runs env c P (io_return x)"
  by (simp add: runs_def io_return_def)

lemma runs_throw: "runs env c P (io_throw e)"
  by (simp add: runs_def io_throw_def)

lemma runs_exit: "runs env c P (io_exit n)"
  by (simp add: runs_def io_exit_def)

lemma runs_lift: "runs env c P (io_lift r)"
  by (cases r) (simp_all add: io_lift_def runs_return runs_throw)

lemma runs_bind:
  assumes m: "runs env c P m" and f: "\<And>x. runs env c P (f x)"
  shows "runs env c P (io_bind m f)"
proof (rule runsI)
  fix w :: world assume c: "cwd w = c"
  obtain r w1 where mw: "m w = (r, w1)" by (cases "m w")
  from runsD [OF m c mw] obtain es where
    c1: "cwd w1 = c" and t1: "trace w1 = trace w @ es" and p1: "list_all P es"
    and d1: "disk w1 = fold (replay env c) es (disk w)" by blast
  show "cwd (snd (io_bind m f w)) = c \<and>
        (\<exists>es. trace (snd (io_bind m f w)) = trace w @ es \<and> list_all P es \<and>
              disk (snd (io_bind m f w)) = fold (replay env c) es (disk w))"
  proof (cases r)
    case (Inl s)
    with mw c1 t1 p1 d1 show ?thesis by (auto simp: io_bind_def)
  next
    case (Inr x)
    obtain r2 w2 where fw: "f x w1 = (r2, w2)" by (cases "f x w1")
    from runsD [OF f c1 fw] obtain es2 where
      c2: "cwd w2 = c" and t2: "trace w2 = trace w1 @ es2" and p2: "list_all P es2"
      and d2: "disk w2 = fold (replay env c) es2 (disk w1)" by blast
    have "trace w2 = trace w @ (es @ es2)" using t1 t2 by simp
    moreover have "list_all P (es @ es2)" using p1 p2 by simp
    moreover have "disk w2 = fold (replay env c) (es @ es2) (disk w)" using d1 d2 by simp
    ultimately show ?thesis using Inr mw fw c2 by (auto simp: io_bind_def)
  qed
qed

lemma runs_if: "(b \<Longrightarrow> runs env c P m) \<Longrightarrow> (\<not> b \<Longrightarrow> runs env c P n) \<Longrightarrow> runs env c P (if b then m else n)"
  by simp

lemma runs_emit: "P e \<Longrightarrow> \<not> is_file_event e \<Longrightarrow> runs env c P (emit e)"
  by (cases e) (auto simp: runs_def emit_def)

lemma runs_PROJECT_DIR: "runs env c P (f c) \<Longrightarrow> runs env c P (io_bind PROJECT_DIR f)"
  by (simp add: runs_def io_bind_def PROJECT_DIR_def)

lemma runs_PKG_PATH: "runs env c P (f (join c ''package.json'')) \<Longrightarrow> runs env c P (io_bind PKG_PATH f)"
  by (simp add: runs_def io_bind_def PROJECT_DIR_def PKG_PATH_def io_return_def)

lemma runs_existsSync: "(\<And>b. runs env c P (f b)) \<Longrightarrow> runs env c P (io_bind (existsSync p) f)"
  by (simp add: runs_def io_bind_def existsSync_def)

lemma runs_read_text: "P (ReadText p) \<Longrightarrow> runs env c P (read_text p)"
  by (auto simp: runs_def read_text_def io_bind_def emit_def io_throw_def io_return_def
      split: option.splits node.splits)

lemma runs_write_text: "P (WriteText p s) \<Longrightarrow> runs env c P (write_text p s)"
  by (auto simp: runs_def write_text_def io_bind_def emit_def io_throw_def io_return_def
      lookup_node_def split: option.splits node.splits)

lemma runs_rm_rf: "P (RmRf p) \<Longrightarrow> runs env c P (rm_rf p)"
  by (auto simp: runs_def rm_rf_def io_bind_def emit_def io_throw_def io_return_def)

lemma runs_reinstall: "P BunInstall \<Longrightarrow> runs env c P (reinstall env)"
  by (auto simp: runs_def reinstall_def io_bind_def emit_def io_throw_def io_return_def
      split: option.splits)

lemma runs_removeFiles:
  "(\<And>p. p \<in> set ps \<Longrightarrow> P (RmRf (join c p))) \<Longrightarrow> runs env c P (removeFiles ps)"
proof (induction ps)
  case Nil
  show ?case by (simp add: runs_return)
next
  case (Cons p ps)
  have rest: "runs env c P (removeFiles ps)" using Cons by simp
  have here: "P (RmRf (join c p))" using Cons.prems by simp
  show ?case
    unfolding removeFiles.simps
    by (intro runs_PROJECT_DIR runs_existsSync runs_bind runs_if runs_rm_rf runs_return here rest)
qed

lemma runs_ask: "P (Asked p) \<Longrightarrow> P cancel_message \<Longrightarrow> runs env c P (ask p v)"
  unfolding ask_def assertNotCancelled_def
  by (cases v) (auto intro!: runs_bind runs_emit runs_exit runs_return simp: cancel_message_def)

lemma runs_prompt_sequence:
  "(\<And>p. P (Asked p)) \<Longrightarrow> P cancel_message \<Longrightarrow> runs env c P (prompt_sequence r)"
  unfolding prompt_sequence_def
  by (intro runs_bind runs_ask runs_return)




lemma join_plain:
  "join c ''package.json'' = c @ [''package.json'']"
  "join c ''README.md'' = c @ [''README.md'']"
  "join c ''setup'' = c @ [''setup'']"
  "join c ''LICENSE'' = c @ [''LICENSE'']"
  "join c ''.lintstagedrc'' = c @ [''.lintstagedrc'']"
  "join c ''.vscode/settings.json'' = c @ [''.vscode'', ''settings.json'']"
  "join c ''.github/workflows/ci.yml'' = c @ [''.github'', ''workflows'', ''ci.yml'']"
  "join c ''.github'' = c @ [''.github'']"
  "join c ''.husky'' = c @ [''.husky'']"
  "join c ''commitlint.config.js'' = c @ [''commitlint.config.js'']"
  "join c ''.github/ISSUE_TEMPLATE'' = c @ [''.github'', ''ISSUE_TEMPLATE'']"
  "join c ''.github/PULL_REQUEST_TEMPLATE.md'' = c @ [''.github'', ''PULL_REQUEST_TEMPLATE.md'']"
  "join c ''.github/workflows'' = c @ [''.github'', ''workflows'']"
  "join c ''.markdownlint.json'' = c @ [''.markdownlint.json'']"
  "join c ''.markdownlintignore'' = c @ [''.markdownlintignore'']"
  "join c ''CODE_OF_CONDUCT.md'' = c @ [''CODE_OF_CONDUCT.md'']"
  "join c ''CLAUDE.md'' = c @ [''CLAUDE.md'']"
  by (simp_all add: join_def)

lemma runs_delete_key_in_file:
  "(\<And>e. edits (join c file) e \<Longrightarrow> P e) \<Longrightarrow> runs env c P (delete_key_in_file env file key)"
  unfolding delete_key_in_file_def
  by (intro runs_PROJECT_DIR runs_existsSync runs_if runs_bind runs_read_text runs_return)
     (auto intro!: runs_throw runs_bind runs_lift runs_write_text split: option.splits)

lemma runs_clean_ci:
  "(\<And>e. ''gitHooks'' \<notin> set S \<Longrightarrow> ''githubCI'' \<in> set S \<Longrightarrow>
         edits (join c ''.github/workflows/ci.yml'') e \<Longrightarrow> P e) \<Longrightarrow> runs env c P (clean_ci S)"
  unfolding clean_ci_def
  by (intro runs_PROJECT_DIR runs_existsSync runs_if runs_bind runs_read_text runs_return
        runs_write_text) auto

lemma runs_cross_feature_cleanup:
  "runs env c (cleanup_event c S) (cross_feature_cleanup env S)"
  unfolding cross_feature_cleanup_def clean_lintstaged_def clean_vscode_markdown_def
    clean_vscode_ci_def
  by (intro runs_bind runs_if runs_return runs_delete_key_in_file runs_clean_ci)
     (auto simp: cleanup_event_def)


lemma PROJECT_DIR_bind: "io_bind PROJECT_DIR f w = f (cwd w) w"
  by (simp add: io_bind_def PROJECT_DIR_def)






lemma runs_readPkg: "P (ReadText (join c ''package.json'')) \<Longrightarrow> runs env c P (readPkg env)"
  unfolding readPkg_def
  by (rule runs_PKG_PATH, rule runs_bind, erule runs_read_text)
     (auto intro: runs_throw runs_return split: option.splits)

lemma runs_writePkg:
  "(\<And>s. P (WriteText (join c ''package.json'') s)) \<Longrightarrow> runs env c P (writePkg pkg)"
  unfolding writePkg_def
  by (rule runs_PKG_PATH, rule runs_write_text)

lemma runs_generateReadme:
  "(\<And>s. P (WriteText (join c ''README.md'') s)) \<Longrightarrow> runs env c P (generateReadme n d f)"
  unfolding generateReadme_def
  by (rule runs_PROJECT_DIR, rule runs_write_text)

lemma runs_edit_manifest:
  assumes "P (SpinnerStart ''Configuring project...'')" "P (ReadText (join c ''package.json''))"
  shows "runs env c P (edit_manifest env a)"
  unfolding edit_manifest_def
  by (intro runs_bind runs_emit runs_readPkg runs_lift runs_return assms) auto

lemma runs_remove_and_write:
  assumes "\<And>q. q \<in> set (push_github (selectedFeatures a) (filesToRemove r)) \<Longrightarrow> P (RmRf (join c q))"
    and "\<And>s. P (WriteText (join c ''package.json'') s)"
    and "P (RmRf (join c ''setup''))"
    and "P (SpinnerMessage ''Cleaning up dependencies...'')"
    and "P BunInstall"
  shows "runs env c P (remove_and_write env a pkg r)"
  unfolding remove_and_write_def
  by (intro runs_bind runs_removeFiles runs_lift runs_writePkg runs_if
        runs_emit runs_reinstall runs_return) (auto intro: assms)

lemma runs_summary:
  assumes "\<And>s t. P (Note s t)" "\<And>s. P (Outro s)"
  shows "runs env c P (summary S)"
  unfolding summary_def
  by (intro runs_bind runs_lift runs_emit assms) auto

lemma runs_handle_license:
  assumes "\<And>s. P (LogInfo s)" "P (RmRf (join c ''LICENSE''))"
  shows "runs env c P (handle_license l)"
  unfolding handle_license_def
  by (intro runs_if runs_removeFiles runs_emit runs_return assms) (auto intro: assms)

lemma runs_finish:
  assumes "\<And>s. P (SpinnerMessage s)" "\<And>s. P (SpinnerStop s)" "\<And>s. P (LogInfo s)"
    "\<And>s t. P (Note s t)" "\<And>s. P (Outro s)"
    "\<And>s. P (WriteText (join c ''README.md'') s)" "P (RmRf (join c ''LICENSE''))"
  shows "runs env c P (finish n a)"
  unfolding finish_def
  by (intro runs_bind runs_emit runs_generateReadme runs_handle_license
        runs_summary assms) auto

section \<open>Cancellation\<close>

lemma emit_bind: "io_bind (emit e) f w = f () (w\<lparr>trace := trace w @ [e]\<rparr>)"
  by (simp add: io_bind_def emit_def)

lemma script_cancelled:
  assumes "first_cancel r = Some p"
  shows "script env r w =
     (0, w\<lparr>trace := trace w @ Intro (''Setting up '' @ basename (cwd w))
              # map Asked (prompts_through p) @ [cancel_message]\<rparr>)"
proof -
  consider
    (1) "reply_description r = Cancel" "p = Prompt_description"
  | (2) a1 where "reply_description r = Answer a1" "reply_version r = Cancel" "p = Prompt_version"
  | (3) a1 a2 where "reply_description r = Answer a1" "reply_version r = Answer a2"
      "reply_author r = Cancel" "p = Prompt_author"
  | (4) a1 a2 a3 where "reply_description r = Answer a1" "reply_version r = Answer a2"
      "reply_author r = Answer a3" "reply_license r = Cancel" "p = Prompt_license"
  | (5) a1 a2 a3 a4 where "reply_description r = Answer a1" "reply_version r = Answer a2"
      "reply_author r = Answer a3" "reply_license r = Answer a4" "reply_private r = Cancel"
      "p = Prompt_private"
  | (6) a1 a2 a3 a4 a5 where "reply_description r = Answer a1" "reply_version r = Answer a2"
      "reply_author r = Answer a3" "reply_license r = Answer a4" "reply_private r = Answer a5"
      "reply_entrypoint r = Cancel" "p = Prompt_entrypoint"
  | (7) a1 a2 a3 a4 a5 a6 where "reply_description r = Answer a1" "reply_version r = Answer a2"
      "reply_author r = Answer a3" "reply_license r = Answer a4" "reply_private r = Answer a5"
      "reply_entrypoint r = Answer a6" "reply_features r = Cancel" "p = Prompt_features"
    using assms unfolding first_cancel_def
    by (cases "reply_description r"; cases "reply_version r"; cases "reply_author r";
        cases "reply_license r"; cases "reply_private r"; cases "reply_entrypoint r";
        cases "reply_features r"; simp)
  then show ?thesis
    by cases
      (simp_all add: script_def main_def prompt_sequence_def ask_def assertNotCancelled_def
        io_bind_def emit_def io_exit_def io_return_def prompts_through_def all_prompts_def
        cancel_message_def PROJECT_DIR_def)
qed

text \<open>
  Claim C8. When the user cancels a prompt, the script has made the prompts up to that
  one and no other, prints the cancel message and exits with code 0: the world it leaves
  is the one it started in, with these events appended to the trace and nothing else.
\<close>

theorem cancel_stops_at_prompt:
  "first_cancel r = Some p \<Longrightarrow>
   script env r w =
     (0, w\<lparr>trace := trace w @ Intro (''Setting up '' @ basename (cwd w))
              # map Asked (prompts_through p) @ [cancel_message]\<rparr>)"
  by (rule script_cancelled)

theorem cancel_stops_at_prompt_witness:
  "first_cancel (example_replies\<lparr>reply_author := Cancel\<rparr>) = Some Prompt_author \<and>
   script example_env (example_replies\<lparr>reply_author := Cancel\<rparr>) example_world =
     (0, example_world\<lparr>trace :=
           [Intro ''Setting up proj'', Asked Prompt_description, Asked Prompt_version,
            Asked Prompt_author,
            CancelMessage ''Setup cancelled. Re-run with: bun setup/setup.ts'']\<rparr>)"
proof -
  have c: "first_cancel (example_replies\<lparr>reply_author := Cancel\<rparr>) = Some Prompt_author"
    by (simp add: first_cancel_def example_replies_def)
  from cancel_stops_at_prompt [OF c, of example_env example_world] c show ?thesis
    by (simp add: example_world_def basename_def prompts_through_def all_prompts_def
        cancel_message_def)
qed

lemma apply_changes_no_prompt:
  "runs env c (\<lambda>e. \<not> is_prompt_event e) (apply_changes env n a)"
proof -
  have cl: "runs env c (\<lambda>e. \<not> is_prompt_event e) (cross_feature_cleanup env S)" for S
    by (rule runs_mono [OF runs_cross_feature_cleanup])
       (auto simp: cleanup_event_def elim!: edits.elims)
  show ?thesis
    unfolding apply_changes_def
    by (intro runs_bind runs_edit_manifest cl)
       (auto intro!: runs_bind cl runs_remove_and_write runs_finish)
qed

lemma prompt_sequence_no_file:
  "runs env c (\<lambda>e. \<not> is_file_event e) (prompt_sequence r)"
  by (rule runs_prompt_sequence) (simp_all add: cancel_message_def)

lemma main_trace:
  "\<exists>ui rest. trace (snd (main env r w)) = trace w @ ui @ rest \<and>
     list_all (\<lambda>e. \<not> is_file_event e) ui \<and> list_all (\<lambda>e. \<not> is_prompt_event e) rest"
proof -
  let ?i = "Intro (''Setting up '' @ basename (cwd w))"
  let ?w1 = "w\<lparr>trace := trace w @ [?i]\<rparr>"
  have m: "main env r w = io_bind (prompt_sequence r) (apply_changes env (basename (cwd w))) ?w1"
    by (simp add: main_def PROJECT_DIR_bind emit_bind)
  obtain res w2 where ps: "prompt_sequence r ?w1 = (res, w2)" by (cases "prompt_sequence r ?w1")
  from runsD [OF prompt_sequence_no_file _ ps, of "cwd w"] obtain es1 where
    c2: "cwd w2 = cwd w" and t2: "trace w2 = trace w @ ?i # es1"
    and n1: "list_all (\<lambda>e. \<not> is_file_event e) es1" by auto
  show ?thesis
  proof (cases res)
    case (Inl s)
    with m ps have "snd (main env r w) = w2" by (simp add: io_bind_def)
    with t2 n1 show ?thesis by (intro exI [of _ "?i # es1"] exI [of _ "[]"]) simp
  next
    case (Inr a)
    obtain res3 w3 where ac: "apply_changes env (basename (cwd w)) a w2 = (res3, w3)"
      by (cases "apply_changes env (basename (cwd w)) a w2")
    from runsD [OF apply_changes_no_prompt c2 ac] obtain es2 where
      t3: "trace w3 = trace w2 @ es2" and n2: "list_all (\<lambda>e. \<not> is_prompt_event e) es2" by auto
    from m ps Inr ac have "snd (main env r w) = w3" by (simp add: io_bind_def)
    with t2 t3 n1 n2 show ?thesis by (intro exI [of _ "?i # es1"] exI [of _ es2]) simp
  qed
qed

text \<open>
  Claim C9. In every run, all prompts come before the first event that touches the file
  system; and when a prompt is cancelled, the files are those before the run, none of
  them read, written or removed.
\<close>

theorem prompts_before_files:
  "(\<exists>ui rest. trace (snd (script env r w)) = trace w @ ui @ rest \<and>
      list_all (\<lambda>e. \<not> is_file_event e) ui \<and> list_all (\<lambda>e. \<not> is_prompt_event e) rest)
   \<and> (first_cancel r \<noteq> None \<longrightarrow>
        disk (snd (script env r w)) = disk w \<and>
        list_all (\<lambda>e. \<not> is_file_event e) (drop (length (trace w)) (trace (snd (script env r w)))))"
proof (intro conjI impI)
  obtain ui rest where t: "trace (snd (main env r w)) = trace w @ ui @ rest"
    and u: "list_all (\<lambda>e. \<not> is_file_event e) ui"
    and p: "list_all (\<lambda>e. \<not> is_prompt_event e) rest"
    using main_trace by blast
  obtain res w' where mw: "main env r w = (res, w')" by (cases "main env r w")
  show "\<exists>ui rest. trace (snd (script env r w)) = trace w @ ui @ rest \<and>
      list_all (\<lambda>e. \<not> is_file_event e) ui \<and> list_all (\<lambda>e. \<not> is_prompt_event e) rest"
  proof (cases res)
    case (Inr u')
    with mw t u p show ?thesis by (auto simp: script_def)
  next
    case (Inl s)
    show ?thesis
    proof (cases s)
      case (Exited n)
      with Inl mw t u p show ?thesis by (auto simp: script_def)
    next
      case (Threw e)
      with Inl mw t have "trace (snd (script env r w)) = trace w @ ui @ (rest @ [ConsoleError e])"
        by (simp add: script_def)
      moreover have "list_all (\<lambda>e. \<not> is_prompt_event e) (rest @ [ConsoleError e])"
        using p by simp
      ultimately show ?thesis using u by blast
    qed
  qed
next
  assume "first_cancel r \<noteq> None"
  then obtain q where "first_cancel r = Some q" by blast
  from script_cancelled [OF this, of env w]
  show "disk (snd (script env r w)) = disk w"
    and "list_all (\<lambda>e. \<not> is_file_event e) (drop (length (trace w)) (trace (snd (script env r w))))"
    by (simp_all add: cancel_message_def list_all_iff)
qed

theorem prompts_before_files_witness:
  "first_cancel (example_replies\<lparr>reply_features := Cancel\<rparr>) \<noteq> None \<and>
   disk (snd (script example_env (example_replies\<lparr>reply_features := Cancel\<rparr>) example_world))
     = disk example_world"
proof -
  have c: "first_cancel (example_replies\<lparr>reply_features := Cancel\<rparr>) \<noteq> None"
    by (simp add: first_cancel_def example_replies_def)
  with prompts_before_files [of example_env "example_replies\<lparr>reply_features := Cancel\<rparr>" example_world]
  show ?thesis by blast
qed

section \<open>Removing files\<close>



declare removeFiles.simps(2) [simp del]










section \<open>The cross-feature cleanup and the removed files\<close>

lemma cleanup_new_events:
  "e \<in> set (drop (length (trace w)) (trace (snd (cross_feature_cleanup env S w)))) \<Longrightarrow>
   cleanup_event (cwd w) S e"
proof -
  assume e: "e \<in> set (drop (length (trace w)) (trace (snd (cross_feature_cleanup env S w))))"
  obtain r w' where run: "cross_feature_cleanup env S w = (r, w')"
    by (cases "cross_feature_cleanup env S w")
  from runsD [OF runs_cross_feature_cleanup refl run] obtain es where
    "trace w' = trace w @ es" "list_all (cleanup_event (cwd w) S) es" by blast
  with e run show ?thesis by (simp add: list_all_iff)
qed

lemma removed_file_cases:
  assumes "resolve S = Inr r" and "q \<in> set (push_github S (filesToRemove r))"
  shows "(''gitHooks'' \<notin> set S \<and> q \<in> {''.husky'', ''commitlint.config.js'', ''.lintstagedrc''})
       \<or> (''githubTemplates'' \<notin> set S \<and> q \<in> {''.github/ISSUE_TEMPLATE'', ''.github/PULL_REQUEST_TEMPLATE.md''})
       \<or> (''githubCI'' \<notin> set S \<and> q = ''.github/workflows'')
       \<or> (''markdownlint'' \<notin> set S \<and> q \<in> {''.markdownlint.json'', ''.markdownlintignore''})
       \<or> (''codeOfConduct'' \<notin> set S \<and> q = ''CODE_OF_CONDUCT.md'')
       \<or> (''claudeCode'' \<notin> set S \<and> q = ''CLAUDE.md'')
       \<or> (''githubTemplates'' \<notin> set S \<and> ''githubCI'' \<notin> set S \<and> q = ''.github'')"
proof -
  from resolve_lists [of S] assms(1)
  have fs: "filesToRemove r = concat (map (\<lambda>(k, f). files f) (filter (\<lambda>(k, f). k \<notin> set S) FEATURES))"
    by auto
  from assms(2) show ?thesis
    unfolding fs push_github_def FEATURES_def
    by (auto split: if_splits)
qed

text \<open>
  Claim C10. Whatever the cross-feature cleanup writes under a selection is not a path that
  \<open>removeFiles\<close> is given under that selection, nor anything below such a path. The
  lint-staged file is written only when \<open>gitHooks\<close> is selected, the CI workflow only when
  \<open>githubCI\<close> is, and the editor settings are in no feature's file list.
\<close>

theorem cleanup_edits_no_removed_file:
  assumes "resolve S = Inr r"
    and "e \<in> set (drop (length (trace w)) (trace (snd (cross_feature_cleanup env S w))))"
  shows "(\<forall>p s q. e = WriteText p s \<and> q \<in> set (push_github S (filesToRemove r))
            \<longrightarrow> \<not> prefix (join (cwd w) q) p)
       \<and> ((\<exists>s. e = WriteText (join (cwd w) ''.lintstagedrc'') s) \<longrightarrow> ''gitHooks'' \<in> set S)
       \<and> ((\<exists>s. e = WriteText (join (cwd w) ''.github/workflows/ci.yml'') s) \<longrightarrow> ''githubCI'' \<in> set S)
       \<and> ''.vscode/settings.json'' \<notin> set (concat (map (\<lambda>(k, f). files f) FEATURES))"
proof (intro conjI allI impI)
  note ev = cleanup_new_events [OF assms(2)]
  show "''.vscode/settings.json'' \<notin> set (concat (map (\<lambda>(k, f). files f) FEATURES))"
    by (simp add: FEATURES_def)
  show "''gitHooks'' \<in> set S" if "\<exists>s. e = WriteText (join (cwd w) ''.lintstagedrc'') s"
    using that ev by (auto simp: cleanup_event_def join_plain)
  show "''githubCI'' \<in> set S" if "\<exists>s. e = WriteText (join (cwd w) ''.github/workflows/ci.yml'') s"
    using that ev by (auto simp: cleanup_event_def join_plain)
  fix p s q
  assume a: "e = WriteText p s \<and> q \<in> set (push_github S (filesToRemove r))"
  then have q: "q \<in> set (push_github S (filesToRemove r))" and e: "e = WriteText p s"
    by simp_all
  from removed_file_cases [OF assms(1) q] e ev
  show "\<not> prefix (join (cwd w) q) p"
    by (auto simp: cleanup_event_def join_plain)
qed

lemma example_resolve: "resolve example_selection = Inr example_removals"
  by (simp add: resolve_def deselected_def FEATURES_def example_selection_def example_removals_def)

lemma example_cleanup_trace:
  "trace (snd (cross_feature_cleanup example_env example_selection example_world)) =
     [ReadText [''home'', ''proj'', ''.lintstagedrc''],
      WriteText [''home'', ''proj'', ''.lintstagedrc'']
        (JSON_stringify (JObj [(''*.ts'', JStr ''biome check'')]) tab @ [newline])]"
  by code_simp

theorem cleanup_edits_no_removed_file_witness:
  "resolve example_selection = Inr example_removals \<and>
   WriteText [''home'', ''proj'', ''.lintstagedrc'']
       (JSON_stringify (JObj [(''*.ts'', JStr ''biome check'')]) tab @ [newline])
     \<in> set (drop (length (trace example_world))
          (trace (snd (cross_feature_cleanup example_env example_selection example_world)))) \<and>
   ''.markdownlint.json'' \<in> set (push_github example_selection (filesToRemove example_removals)) \<and>
   \<not> prefix (join (cwd example_world) ''.markdownlint.json'') [''home'', ''proj'', ''.lintstagedrc''] \<and>
   ''gitHooks'' \<in> set example_selection"
proof -
  let ?e = "WriteText [''home'', ''proj'', ''.lintstagedrc'']
       (JSON_stringify (JObj [(''*.ts'', JStr ''biome check'')]) tab @ [newline])"
  have ev: "?e \<in> set (drop (length (trace example_world))
          (trace (snd (cross_feature_cleanup example_env example_selection example_world))))"
    unfolding example_cleanup_trace by (simp add: example_world_def)
  have q: "''.markdownlint.json'' \<in> set (push_github example_selection (filesToRemove example_removals))"
    by (simp add: push_github_def example_selection_def example_removals_def)
  have w: "join (cwd example_world) ''.lintstagedrc'' = [''home'', ''proj'', ''.lintstagedrc'']"
    by (simp add: join_plain example_world_def)
  from cleanup_edits_no_removed_file [OF example_resolve ev] q w
  have "\<not> prefix (join (cwd example_world) ''.markdownlint.json'') [''home'', ''proj'', ''.lintstagedrc'']"
    and "''gitHooks'' \<in> set example_selection"
    by auto
  with example_resolve ev q show ?thesis by simp
qed

section \<open>The README\<close>





















section \<open>Runs that complete\<close>










section \<open>The manifest that is written\<close>



























section \<open>The lint-staged file\<close>








section \<open>The serialisation of the manifest\<close>






















end
